theory Spec2Isabelle
  imports Main "HOL-Library.Word"
begin

section \<open>Values, exceptions and standard output\<close>

text \<open>
  The handlers of \<^verbatim>\<open>functions/custom-resource/index.py\<close> receive the lifecycle event as a
  Python dictionary decoded from JSON. A value is one of the JSON shapes; \<open>VBytes\<close> is
  there because \<^verbatim>\<open>urlparse\<close> answers with bytes when its argument is not a \<^verbatim>\<open>str\<close>.
  A float is carried as its 64 bits (only its truth value is ever read); an integer
  is one that JSON decoding yields, which formatting does not refuse. A dictionary
  is the list of its items, read with \<open>map_of\<close>; its keys are strings, as JSON gives them.
  Text is a HOL string; text outside ASCII is taken in UTF-8, on which the searches for
  the ASCII delimiters below give the same split as on code points. A surrogate code
  point (JSON can carry one, as in \<^verbatim>\<open>"\ud800"\<close>) has no UTF-8 encoding proper and is
  taken as the three bytes \<^verbatim>\<open>ED A0..BF 80..BF\<close> that the \<^verbatim>\<open>surrogatepass\<close> handler
  writes for it.
\<close>

datatype pyval =
    VNone
  | VBool bool
  | VInt int
  | VFloat "64 word"
  | VStr string
  | VBytes string
  | VList "pyval list"
  | VDict "(string \<times> pyval) list"

type_synonym pydict = "(string \<times> pyval) list"

text \<open>
  Every \<^verbatim>\<open>raise\<close> of the program and of the library calls it makes is a value.
  \<open>Exception_Invalid_request_type v\<close> is
  \<^verbatim>\<open>Exception("Invalid request type: %s" % v)\<close>; the message is determined by \<open>v\<close>.
\<close>

datatype exn =
    KeyError string
  | TypeError
  | AttributeError
  | ValueError
  | UnicodeDecodeError
  | UnicodeEncodeError
  | Exception_Invalid_request_type pyval

text \<open>
  \<^verbatim>\<open>print\<close> appends a line to standard output. A line is kept as the values it was
  formatted from:
  \<^item> \<open>Printed_event e\<close> is \<^verbatim>\<open>print(event)\<close>;
  \<^item> \<open>Printed_create p\<close> is \<^verbatim>\<open>print("create new resource with props %s" % props)\<close>;
  \<^item> \<open>Printed_update i p\<close> is
    \<^verbatim>\<open>print("update resource %s with props %s" % (physical_id, props))\<close>;
  \<^item> \<open>Printed_delete i\<close> is \<^verbatim>\<open>print("delete resource %s" % physical_id)\<close>.
  Formatting with \<^verbatim>\<open>%s\<close> does not fail on any value of \<open>pyval\<close>.
\<close>

datatype printed =
    Printed_event pydict
  | Printed_create pyval
  | Printed_update pyval pyval
  | Printed_delete pyval

type_synonym stdout = "printed list"

text \<open>
  Standard output encodes in UTF-8, so the only characters it may refuse are the
  surrogates, and its error handler decides: \<open>Strict\<close>, Python's default, refuses
  every surrogate; \<open>Surrogateescape\<close>, which Python takes for standard output in the C
  locale, writes \<^verbatim>\<open>U+DC80\<close> to \<^verbatim>\<open>U+DCFF\<close> (second byte \<^verbatim>\<open>B2\<close> or \<^verbatim>\<open>B3\<close>) and
  refuses the others; \<open>Replacing\<close> stands for the handlers that always write something
  (\<^verbatim>\<open>replace\<close>, \<^verbatim>\<open>backslashreplace\<close>, \<^verbatim>\<open>ignore\<close> and the like).
\<close>

datatype error_handler = Strict | Surrogateescape | Replacing

text \<open>Whether encoding the text raises \<^verbatim>\<open>UnicodeEncodeError\<close> under the handler.\<close>

fun unencodable :: "error_handler \<Rightarrow> string \<Rightarrow> bool" where
  "unencodable h (a # b # s) =
     ((a = CHR 0xED \<and> (160 :: nat) \<le> of_char b \<and> (of_char b :: nat) \<le> 191 \<and>
       (case h of
          Strict \<Rightarrow> True
        | Surrogateescape \<Rightarrow> b \<noteq> CHR 0xB2 \<and> b \<noteq> CHR 0xB3
        | Replacing \<Rightarrow> False)) \<or>
      unencodable h (b # s))"
| "unencodable h s = False"

text \<open>
  \<^verbatim>\<open>"%s" % v\<close> puts a string in as it is, surrogates included; every other value goes
  in through its \<^verbatim>\<open>repr\<close>, which escapes them, and so does a string inside a
  dictionary or a list. Hence only a string formatted with \<^verbatim>\<open>%s\<close> can make a line
  that standard output refuses, and \<^verbatim>\<open>print(event)\<close> never does.
\<close>

fun str_unencodable :: "error_handler \<Rightarrow> pyval \<Rightarrow> bool" where
  "str_unencodable h (VStr s) = unencodable h s"
| "str_unencodable h v = False"

text \<open>
  The value is a string that holds a surrogate: formatted with \<^verbatim>\<open>%s\<close> it makes a line
  that the strict handler refuses. Without one the line is written under every handler.
\<close>

definition holds_surrogate :: "pyval \<Rightarrow> bool" where
  "holds_surrogate v = str_unencodable Strict v"

fun line_unencodable :: "error_handler \<Rightarrow> printed \<Rightarrow> bool" where
  "line_unencodable h (Printed_event e) = False"
| "line_unencodable h (Printed_create p) = str_unencodable h p"
| "line_unencodable h (Printed_update i p) = (str_unencodable h i \<or> str_unencodable h p)"
| "line_unencodable h (Printed_delete i) = str_unencodable h i"

text \<open>
  \<^verbatim>\<open>print(line)\<close>: the exception it raises, if any, and standard output afterwards. A
  line that cannot be encoded raises before anything of it is written.
\<close>

definition print :: "error_handler \<Rightarrow> printed \<Rightarrow> stdout \<Rightarrow> exn option \<times> stdout" where
  "print h line out =
     (if line_unencodable h line then (Some UnicodeEncodeError, out) else (None, out @ [line]))"

text \<open>\<^verbatim>\<open>d[k]\<close> on a dictionary: the value, or \<^verbatim>\<open>KeyError\<close>.\<close>

definition dict_getitem :: "pydict \<Rightarrow> string \<Rightarrow> exn + pyval" where
  "dict_getitem d k = (case map_of d k of None \<Rightarrow> Inl (KeyError k) | Some v \<Rightarrow> Inr v)"

text \<open>
  \<^verbatim>\<open>v[k]\<close> with a string key on any value: only a dictionary can answer; a list, a
  string and bytes want integer indices, the other values are not subscriptable.
\<close>

fun getitem :: "pyval \<Rightarrow> string \<Rightarrow> exn + pyval" where
  "getitem (VDict d) k = dict_getitem d k"
| "getitem _ k = Inl TypeError"

text \<open>The truth value of \<^verbatim>\<open>if x\<close>; a float is false when it is \<open>+0.0\<close> or \<open>-0.0\<close>.\<close>

fun truthy :: "pyval \<Rightarrow> bool" where
  "truthy VNone = False"
| "truthy (VBool b) = b"
| "truthy (VInt i) = (i \<noteq> 0)"
| "truthy (VFloat w) = (2 * w \<noteq> 0)"
| "truthy (VStr s) = (s \<noteq> [])"
| "truthy (VBytes s) = (s \<noteq> [])"
| "truthy (VList xs) = (xs \<noteq> [])"
| "truthy (VDict d) = (d \<noteq> [])"

section \<open>The URL parser of the standard library\<close>

text \<open>
  \<^verbatim>\<open>on_create\<close> calls \<^verbatim>\<open>urllib.parse.urlparse(url).netloc\<close>. The model follows
  \<^verbatim>\<open>Lib/urllib/parse.py\<close> of CPython 3.11.10 and 3.12.3 for what decides that attribute: the
  argument coercion, the stripping, the scheme, the split at the first delimiter and
  the checks that raise. The path, params, query and fragment come from further
  splits that cannot raise and that the handler does not read.

  Two library functions rest on tables outside this program and are arguments of
  the model: \<^verbatim>\<open>ipaddress.ip_address\<close> (\<open>None\<close> where it raises \<^verbatim>\<open>ValueError\<close>) and
  \<^verbatim>\<open>unicodedata.normalize('NFKC', s)\<close>.

  The two releases differ in one place, the validation of a network location that
  holds both brackets. CPython 3.11.4 to 3.11.11 call \<^verbatim>\<open>_check_bracketed_host\<close> on the
  text between the first \<open>[\<close> and the next \<open>]\<close> (\<open>Bracketed_host\<close>); the releases that
  follow call \<^verbatim>\<open>_check_bracketed_netloc\<close> on the whole network location
  (\<open>Bracketed_netloc\<close>). Which of the two runs is an argument too, and so is the error
  handler of standard output. The repository does not name its interpreter; the model
  is of CPython from 3.11.4 on.
\<close>

datatype ip_kind = IPv4Address | IPv6Address

datatype bracket_check = Bracketed_host | Bracketed_netloc

record stdlib =
  ip_address :: "string \<Rightarrow> ip_kind option"
  normalize_NFKC :: "string \<Rightarrow> string"
  bracket_check :: bracket_check
  stdout_errors :: error_handler

text \<open>\<^verbatim>\<open>s.find(c, start)\<close>: the index of the first \<open>c\<close> at or after \<open>start\<close>, or \<open>-1\<close>.\<close>

definition str_find :: "string \<Rightarrow> char \<Rightarrow> nat \<Rightarrow> int" where
  "str_find s c start =
     (if c \<in> set (drop start s)
      then int (start + length (takeWhile (\<lambda>x. x \<noteq> c) (drop start s)))
      else - 1)"

text \<open>\<^verbatim>\<open>s.replace(c, "")\<close> for a single character \<open>c\<close>.\<close>

definition str_remove :: "char \<Rightarrow> string \<Rightarrow> string" where
  "str_remove c s = filter (\<lambda>x. x \<noteq> c) s"

text \<open>\<^verbatim>\<open>s.partition(c)[0]\<close> and \<^verbatim>\<open>s.partition(c)[2]\<close>.\<close>

definition partition_before :: "string \<Rightarrow> char \<Rightarrow> string" where
  "partition_before s c = takeWhile (\<lambda>x. x \<noteq> c) s"

definition partition_after :: "string \<Rightarrow> char \<Rightarrow> string" where
  "partition_after s c = (case dropWhile (\<lambda>x. x \<noteq> c) s of [] \<Rightarrow> [] | _ # r \<Rightarrow> r)"

text \<open>\<^verbatim>\<open>s.rpartition(c)[2]\<close>: the text after the last \<open>c\<close>, all of \<open>s\<close> when it has none.\<close>

definition rpartition_after :: "string \<Rightarrow> char \<Rightarrow> string" where
  "rpartition_after s c = rev (takeWhile (\<lambda>x. x \<noteq> c) (rev s))"

definition isascii :: "string \<Rightarrow> bool" where
  "isascii s = list_all (\<lambda>c. (of_char c :: nat) < 128) s"

text \<open>\<^verbatim>\<open>c.isascii() and c.isalpha()\<close> on one character.\<close>

definition isascii_isalpha :: "char \<Rightarrow> bool" where
  "isascii_isalpha c =
     (let n = (of_char c :: nat) in (65 \<le> n \<and> n \<le> 90) \<or> (97 \<le> n \<and> n \<le> 122))"

definition scheme_chars :: string where
  "scheme_chars = ''abcdefghijklmnopqrstuvwxyzABCDEFGHIJKLMNOPQRSTUVWXYZ0123456789+-.''"

text \<open>The characters \<^verbatim>\<open>\x00\<close> to \<^verbatim>\<open>\x1f\<close> and the space.\<close>

definition WHATWG_C0_CONTROL_OR_SPACE :: "char \<Rightarrow> bool" where
  "WHATWG_C0_CONTROL_OR_SPACE c = ((of_char c :: nat) \<le> 32)"

text \<open>Tab, carriage return and line feed.\<close>

definition UNSAFE_URL_BYTES_TO_REMOVE :: string where
  "UNSAFE_URL_BYTES_TO_REMOVE = [CHR 0x09, CHR 0x0D, CHR 0x0A]"

text \<open>
  \<^verbatim>\<open>
  def _splitnetloc(url, start=0):
      delim = len(url)
      for c in '/?#':
          wdelim = url.find(c, start)
          if wdelim >= 0:
              delim = min(delim, wdelim)
      return url[start:delim], url[delim:]
  \<close>
\<close>

definition splitnetloc :: "string \<Rightarrow> nat \<Rightarrow> string \<times> string" where
  "splitnetloc url start =
     (let delim = fold (\<lambda>c delim. let wdelim = str_find url c start
                                   in if wdelim \<ge> 0 then min delim wdelim else delim)
                       ''/?#'' (int (length url))
      in (take (nat delim - start) (drop start url), drop (nat delim) url))"

text \<open>
  \<^verbatim>\<open>re.match(r"\Av[a-fA-F0-9]+\..+\Z", hostname)\<close>: a \<open>v\<close>, one or more hexadecimal
  digits, a dot, and one or more characters none of which is a line feed.
\<close>

definition is_hex_digit :: "char \<Rightarrow> bool" where
  "is_hex_digit c = (c \<in> set ''abcdefABCDEF0123456789'')"

definition ipvfuture_match :: "string \<Rightarrow> bool" where
  "ipvfuture_match hostname =
     (case hostname of
        [] \<Rightarrow> False
      | c # r \<Rightarrow>
          c = CHR ''v'' \<and> takeWhile is_hex_digit r \<noteq> [] \<and>
          (case dropWhile is_hex_digit r of
             [] \<Rightarrow> False
           | d # t \<Rightarrow> d = CHR ''.'' \<and> t \<noteq> [] \<and> CHR 0x0A \<notin> set t))"

text \<open>
  \<^verbatim>\<open>
  def _check_bracketed_host(hostname):
      if hostname.startswith('v'):
          if not re.match(r"\Av[a-fA-F0-9]+\..+\Z", hostname):
              raise ValueError(f"IPvFuture address is invalid")
      else:
          ip = ipaddress.ip_address(hostname)
          if isinstance(ip, ipaddress.IPv4Address):
              raise ValueError(f"An IPv4 address cannot be in brackets")
  \<close>
\<close>

definition check_bracketed_host :: "stdlib \<Rightarrow> string \<Rightarrow> exn + unit" where
  "check_bracketed_host lib hostname =
     (if take 1 hostname = ''v''
      then (if \<not> ipvfuture_match hostname then Inl ValueError else Inr ())
      else (case ip_address lib hostname of
              None \<Rightarrow> Inl ValueError
            | Some IPv4Address \<Rightarrow> Inl ValueError
            | Some IPv6Address \<Rightarrow> Inr ()))"

text \<open>
  \<^verbatim>\<open>
  def _check_bracketed_netloc(netloc):
      hostname_and_port = netloc.rpartition('@')[2]
      before_bracket, have_open_br, bracketed = hostname_and_port.partition('[')
      if have_open_br:
          if before_bracket:
              raise ValueError("Invalid IPv6 URL")
          hostname, _, port = bracketed.partition(']')
          if port and not port.startswith(":"):
              raise ValueError("Invalid IPv6 URL")
      else:
          hostname, _, port = hostname_and_port.partition(':')
      _check_bracketed_host(hostname)
  \<close>
\<close>

definition check_bracketed_netloc :: "stdlib \<Rightarrow> string \<Rightarrow> exn + unit" where
  "check_bracketed_netloc lib netloc =
     (let hostname_and_port = rpartition_after netloc CHR ''@''
      in if CHR ''['' \<in> set hostname_and_port
         then
           if partition_before hostname_and_port CHR ''['' \<noteq> [] then Inl ValueError
           else
             let bracketed = partition_after hostname_and_port CHR ''['';
                 hostname = partition_before bracketed CHR '']'';
                 port = partition_after bracketed CHR '']''
             in if port \<noteq> [] \<and> take 1 port \<noteq> '':'' then Inl ValueError
                else check_bracketed_host lib hostname
         else check_bracketed_host lib (partition_before hostname_and_port CHR '':''))"

text \<open>
  \<^verbatim>\<open>
  def _checknetloc(netloc):
      if not netloc or netloc.isascii():
          return
      n = netloc.replace('@', '')
      n = n.replace(':', '')
      n = n.replace('#', '')
      n = n.replace('?', '')
      netloc2 = unicodedata.normalize('NFKC', n)
      if n == netloc2:
          return
      for c in '/?#@:':
          if c in netloc2:
              raise ValueError(...)
  \<close>
\<close>

definition checknetloc :: "stdlib \<Rightarrow> string \<Rightarrow> exn + unit" where
  "checknetloc lib netloc =
     (if netloc = [] \<or> isascii netloc then Inr ()
      else
        let n = str_remove CHR ''?'' (str_remove CHR ''#'' (str_remove CHR '':''
                  (str_remove CHR ''@'' netloc)));
            netloc2 = normalize_NFKC lib n
        in if n = netloc2 then Inr ()
           else if list_ex (\<lambda>c. c \<in> set netloc2) ''/?#@:'' then Inl ValueError
           else Inr ())"

text \<open>
  The \<^verbatim>\<open>netloc\<close> of \<^verbatim>\<open>urlsplit(url)\<close> for a \<^verbatim>\<open>str\<close>, or the exception it raises:
  \<^verbatim>\<open>
  url = url.lstrip(_WHATWG_C0_CONTROL_OR_SPACE)
  for b in _UNSAFE_URL_BYTES_TO_REMOVE:
      url = url.replace(b, "")
  netloc = query = fragment = ''
  i = url.find(':')
  if i > 0 and url[0].isascii() and url[0].isalpha():
      for c in url[:i]:
          if c not in scheme_chars:
              break
      else:
          scheme, url = url[:i].lower(), url[i+1:]
  if url[:2] == '//':
      netloc, url = _splitnetloc(url, 2)
      if (('[' in netloc and ']' not in netloc) or
              (']' in netloc and '[' not in netloc)):
          raise ValueError("Invalid IPv6 URL")
      if '[' in netloc and ']' in netloc:
          bracketed_host = netloc.partition('[')[2].partition(']')[0]
          _check_bracketed_host(bracketed_host)
  ...
  _checknetloc(netloc)
  \<close>
  In the later releases the last \<^verbatim>\<open>if\<close> reads
  \<^verbatim>\<open>
      if '[' in netloc and ']' in netloc:
          _check_bracketed_netloc(netloc)
  \<close>
\<close>

definition strip_scheme :: "string \<Rightarrow> string" where
  "strip_scheme url =
     (let i = str_find url CHR '':'' 0
      in if i > 0 \<and> isascii_isalpha (hd url) \<and>
            list_all (\<lambda>c. c \<in> set scheme_chars) (take (nat i) url)
         then drop (nat i + 1) url
         else url)"

definition urlsplit_netloc :: "stdlib \<Rightarrow> string \<Rightarrow> exn + string" where
  "urlsplit_netloc lib url0 =
     (let url1 = dropWhile WHATWG_C0_CONTROL_OR_SPACE url0;
          url2 = fold str_remove UNSAFE_URL_BYTES_TO_REMOVE url1;
          url = strip_scheme url2
      in if take 2 url = ''//''
         then
           let netloc = fst (splitnetloc url 2) in
           if (CHR ''['' \<in> set netloc \<and> CHR '']'' \<notin> set netloc) \<or>
              (CHR '']'' \<in> set netloc \<and> CHR ''['' \<notin> set netloc)
           then Inl ValueError
           else
             (case (if CHR ''['' \<in> set netloc \<and> CHR '']'' \<in> set netloc
                    then (case bracket_check lib of
                            Bracketed_host \<Rightarrow>
                              check_bracketed_host lib
                                (partition_before (partition_after netloc CHR ''['') CHR '']'')
                          | Bracketed_netloc \<Rightarrow> check_bracketed_netloc lib netloc)
                    else Inr ()) of
                Inl e \<Rightarrow> Inl e
              | Inr _ \<Rightarrow>
                  (case checknetloc lib netloc of
                     Inl e \<Rightarrow> Inl e
                   | Inr _ \<Rightarrow> Inr netloc))
         else
           (case checknetloc lib [] of
              Inl e \<Rightarrow> Inl e
            | Inr _ \<Rightarrow> Inr []))"

text \<open>
  \<^verbatim>\<open>urlparse(url).netloc\<close> for any value. A \<^verbatim>\<open>str\<close> is parsed as it is. Anything
  else goes through \<^verbatim>\<open>x.decode('ascii', 'strict') if x else ''\<close> and the answer is
  encoded back to bytes: a false value parses as the empty string, bytes must be
  ASCII, and a true value that is not bytes has no \<^verbatim>\<open>decode\<close>.
\<close>

fun urlparse_netloc :: "stdlib \<Rightarrow> pyval \<Rightarrow> exn + pyval" where
  "urlparse_netloc lib (VStr s) =
     (case urlsplit_netloc lib s of Inl e \<Rightarrow> Inl e | Inr netloc \<Rightarrow> Inr (VStr netloc))"
| "urlparse_netloc lib (VBytes b) =
     (if isascii b
      then (case urlsplit_netloc lib b of Inl e \<Rightarrow> Inl e | Inr netloc \<Rightarrow> Inr (VBytes netloc))
      else Inl UnicodeDecodeError)"
| "urlparse_netloc lib v =
     (if truthy v then Inl AttributeError
      else (case urlsplit_netloc lib [] of Inl e \<Rightarrow> Inl e | Inr netloc \<Rightarrow> Inr (VBytes netloc)))"

section \<open>The lifecycle handlers\<close>

text \<open>
  \<^verbatim>\<open>
  def on_create(event):
    props = event["ResourceProperties"]
    print("create new resource with props %s" % props)
    url = event['ResourceProperties']['Url']
    parsed_url = urllib.parse.urlparse(url)
    attributes = {
        'HostName': parsed_url.netloc
    }
    return { 'Data': attributes }
  \<close>
  Each function takes standard output and returns it with its outcome, so what was
  printed before an exception stays printed.
\<close>

definition on_create :: "stdlib \<Rightarrow> pydict \<Rightarrow> stdout \<Rightarrow> (exn + pyval) \<times> stdout" where
  "on_create lib event out =
     (case dict_getitem event ''ResourceProperties'' of
        Inl e \<Rightarrow> (Inl e, out)
      | Inr props \<Rightarrow>
          (case print (stdout_errors lib) (Printed_create props) out of
             (Some e, out1) \<Rightarrow> (Inl e, out1)
           | (None, out1) \<Rightarrow>
               (case dict_getitem event ''ResourceProperties'' of
                  Inl e \<Rightarrow> (Inl e, out1)
                | Inr props' \<Rightarrow>
                    (case getitem props' ''Url'' of
                       Inl e \<Rightarrow> (Inl e, out1)
                     | Inr url \<Rightarrow>
                         (case urlparse_netloc lib url of
                            Inl e \<Rightarrow> (Inl e, out1)
                          | Inr netloc \<Rightarrow>
                              (Inr (VDict [(''Data'', VDict [(''HostName'', netloc)])]),
                               out1))))))"

text \<open>
  \<^verbatim>\<open>
  def on_update(event):
    physical_id = event["PhysicalResourceId"]
    props = event["ResourceProperties"]
    print("update resource %s with props %s" % (physical_id, props))
    return { 'PhysicalResourceId': physical_id }
  \<close>
  The update and delete handlers use nothing of the library but \<^verbatim>\<open>print\<close>, so they
  take the error handler of standard output alone.
\<close>

definition on_update :: "error_handler \<Rightarrow> pydict \<Rightarrow> stdout \<Rightarrow> (exn + pyval) \<times> stdout" where
  "on_update h event out =
     (case dict_getitem event ''PhysicalResourceId'' of
        Inl e \<Rightarrow> (Inl e, out)
      | Inr physical_id \<Rightarrow>
          (case dict_getitem event ''ResourceProperties'' of
             Inl e \<Rightarrow> (Inl e, out)
           | Inr props \<Rightarrow>
               (case print h (Printed_update physical_id props) out of
                  (Some e, out1) \<Rightarrow> (Inl e, out1)
                | (None, out1) \<Rightarrow>
                    (Inr (VDict [(''PhysicalResourceId'', physical_id)]), out1))))"

text \<open>
  \<^verbatim>\<open>
  def on_delete(event):
    physical_id = event["PhysicalResourceId"]
    print("delete resource %s" % physical_id)
    return { 'PhysicalResourceId': physical_id }
  \<close>
\<close>

definition on_delete :: "error_handler \<Rightarrow> pydict \<Rightarrow> stdout \<Rightarrow> (exn + pyval) \<times> stdout" where
  "on_delete h event out =
     (case dict_getitem event ''PhysicalResourceId'' of
        Inl e \<Rightarrow> (Inl e, out)
      | Inr physical_id \<Rightarrow>
          (case print h (Printed_delete physical_id) out of
             (Some e, out1) \<Rightarrow> (Inl e, out1)
           | (None, out1) \<Rightarrow>
               (Inr (VDict [(''PhysicalResourceId'', physical_id)]), out1)))"

text \<open>
  \<^verbatim>\<open>
  def on_event(event, context):
    print(event)
    request_type = event['RequestType']
    if request_type == 'Create': return on_create(event)
    if request_type == 'Update': return on_update(event)
    if request_type == 'Delete': return on_delete(event)
    raise Exception("Invalid request type: %s" % request_type)
  \<close>
  A value equals the string \<^verbatim>\<open>'Create'\<close> only when it is that string.
\<close>

definition on_event :: "stdlib \<Rightarrow> pydict \<Rightarrow> 'c \<Rightarrow> stdout \<Rightarrow> (exn + pyval) \<times> stdout" where
  "on_event lib event context out =
     (case print (stdout_errors lib) (Printed_event event) out of
        (Some e, out1) \<Rightarrow> (Inl e, out1)
      | (None, out1) \<Rightarrow>
          (case dict_getitem event ''RequestType'' of
             Inl e \<Rightarrow> (Inl e, out1)
           | Inr request_type \<Rightarrow>
               if request_type = VStr ''Create'' then on_create lib event out1
               else if request_type = VStr ''Update'' then on_update (stdout_errors lib) event out1
               else if request_type = VStr ''Delete'' then on_delete (stdout_errors lib) event out1
               else (Inl (Exception_Invalid_request_type request_type), out1)))"

section \<open>The completion checker\<close>

text \<open>
  \<^verbatim>\<open>
  def is_complete(event, context):
    physical_id = event["PhysicalResourceId"]
    request_type = event["RequestType"]
    return { 'IsComplete': True }
  \<close>
\<close>

definition is_complete :: "pydict \<Rightarrow> 'c \<Rightarrow> stdout \<Rightarrow> (exn + pyval) \<times> stdout" where
  "is_complete event context out =
     (case dict_getitem event ''PhysicalResourceId'' of
        Inl e \<Rightarrow> (Inl e, out)
      | Inr physical_id \<Rightarrow>
          (case dict_getitem event ''RequestType'' of
             Inl e \<Rightarrow> (Inl e, out)
           | Inr request_type \<Rightarrow> (Inr (VDict [(''IsComplete'', VBool True)]), out)))"

section \<open>URLs with a scheme and an authority\<close>

text \<open>
  These two predicates are not code of the program: they describe the URLs
  \<open>scheme://authority\<close>, optionally followed by a path, a query or a fragment, that the
  specification has in mind when it speaks of the network location. A scheme is a
  letter followed by letters, digits, \<open>+\<close>, \<open>-\<close> and \<open>.\<close>; an authority (user
  information, host and port) is ASCII text free of the delimiters \<open>/\<close>, \<open>?\<close>, \<open>#\<close>, of
  brackets, and of tab, carriage return and line feed.
\<close>

definition valid_scheme :: "string \<Rightarrow> bool" where
  "valid_scheme scheme =
     (scheme \<noteq> [] \<and> isascii_isalpha (hd scheme) \<and> list_all (\<lambda>c. c \<in> set scheme_chars) scheme)"

definition plain_authority :: "string \<Rightarrow> bool" where
  "plain_authority authority =
     (isascii authority \<and>
      list_all (\<lambda>c. c \<notin> set ''/?#[]'' \<and> c \<notin> set UNSAFE_URL_BYTES_TO_REMOVE) authority)"

section \<open>Facts about the parser\<close>

lemmas parser_defs = urlsplit_netloc_def WHATWG_C0_CONTROL_OR_SPACE_def
  UNSAFE_URL_BYTES_TO_REMOVE_def str_remove_def strip_scheme_def str_find_def
  isascii_isalpha_def scheme_chars_def splitnetloc_def checknetloc_def isascii_def Let_def

lemma urlsplit_netloc_example_port:
  "urlsplit_netloc lib ''https://example.com:8080/path'' = Inr ''example.com:8080''"
  by (simp add: parser_defs)

lemma urlsplit_netloc_example_ip:
  "urlsplit_netloc lib ''http://10.0.0.5/'' = Inr ''10.0.0.5''"
  by (simp add: parser_defs)

lemma urlsplit_netloc_open_bracket:
  "urlsplit_netloc lib ''http://['' = Inl ValueError"
  by (simp add: parser_defs)

text \<open>The parser raises nothing but \<^verbatim>\<open>ValueError\<close> on a string.\<close>

lemma check_bracketed_host_error:
  "check_bracketed_host lib h = Inl e \<Longrightarrow> e = ValueError"
  by (auto simp: check_bracketed_host_def split: if_splits option.splits ip_kind.splits)

lemma check_bracketed_netloc_error:
  "check_bracketed_netloc lib n = Inl e \<Longrightarrow> e = ValueError"
  by (auto simp: check_bracketed_netloc_def Let_def split: if_splits
      dest: check_bracketed_host_error)

lemma checknetloc_error: "checknetloc lib n = Inl e \<Longrightarrow> e = ValueError"
  by (auto simp: checknetloc_def Let_def split: if_splits)

lemma urlsplit_netloc_error: "urlsplit_netloc lib url = Inl e \<Longrightarrow> e = ValueError"
  unfolding urlsplit_netloc_def Let_def
  by (auto split: if_splits sum.splits bracket_check.splits
      dest: check_bracketed_host_error check_bracketed_netloc_error checknetloc_error)

lemma urlparse_netloc_error:
  "urlparse_netloc lib v = Inl e \<Longrightarrow> e \<in> {ValueError, AttributeError, UnicodeDecodeError}"
  by (cases v) (auto split: if_splits sum.splits dest: urlsplit_netloc_error)

text \<open>The loop of \<open>splitnetloc\<close> cuts at the first of the three delimiters.\<close>

lemma length_takeWhile_three:
  "length (takeWhile (\<lambda>x. x \<noteq> a \<and> x \<noteq> b \<and> x \<noteq> c) ys) =
     min (min (length (takeWhile (\<lambda>x. x \<noteq> a) ys)) (length (takeWhile (\<lambda>x. x \<noteq> b) ys)))
         (length (takeWhile (\<lambda>x. x \<noteq> c) ys))"
  by (induction ys) auto

lemma takeWhile_all: "c \<notin> set ys \<Longrightarrow> takeWhile (\<lambda>x. x \<noteq> c) ys = ys"
  by (induction ys) auto

lemma splitnetloc_step:
  assumes "start \<le> length url" and "delim = int start + int d" and "d \<le> length (drop start url)"
  shows "(let wdelim = str_find url c start in if wdelim \<ge> 0 then min delim wdelim else delim)
         = int start + int (min d (length (takeWhile (\<lambda>x. x \<noteq> c) (drop start url))))"
proof (cases "c \<in> set (drop start url)")
  case True
  then show ?thesis using assms by (simp add: str_find_def Let_def min_def)
next
  case False
  then have "length (takeWhile (\<lambda>x. x \<noteq> c) (drop start url)) = length (drop start url)"
    by (simp add: takeWhile_all)
  with False assms show ?thesis by (simp add: str_find_def Let_def min_def)
qed

lemma splitnetloc_fst:
  assumes "start \<le> length url"
  shows "fst (splitnetloc url start) =
     takeWhile (\<lambda>x. x \<noteq> CHR ''/'' \<and> x \<noteq> CHR ''?'' \<and> x \<noteq> CHR ''#'') (drop start url)"
proof -
  let ?ys = "drop start url"
  let ?l = "\<lambda>c. length (takeWhile (\<lambda>x. x \<noteq> c) ?ys)"
  define step where "step = (\<lambda>c delim. let wdelim = str_find url c start
                              in if wdelim \<ge> 0 then min delim wdelim else delim)"
  have le: "?l c \<le> length ?ys" for c by (rule length_takeWhile_le)
  have step: "step c (int start + int d) = int start + int (min d (?l c))"
    if "d \<le> length ?ys" for c d
    unfolding step_def using splitnetloc_step [OF assms refl that] .
  have len: "int (length url) = int start + int (length ?ys)" using assms by simp
  have "fold step ''/?#'' (int (length url))
        = step CHR ''#'' (step CHR ''?'' (step CHR ''/'' (int (length url))))"
    by simp
  also have "\<dots> = step CHR ''#'' (step CHR ''?'' (step CHR ''/'' (int start + int (length ?ys))))"
    by (simp only: len)
  also have "\<dots> = step CHR ''#'' (step CHR ''?'' (int start + int (?l CHR ''/'')))"
    using le [of "CHR ''/''"] by (simp add: step min_def)
  also have "\<dots> = step CHR ''#'' (int start + int (min (?l CHR ''/'') (?l CHR ''?'')))"
    using le [of "CHR ''/''"] by (simp add: step)
  also have "\<dots> = int start + int (min (min (?l CHR ''/'') (?l CHR ''?'')) (?l CHR ''#''))"
    using le [of "CHR ''/''"] by (simp add: step)
  finally have "nat (fold step ''/?#'' (int (length url))) - start
        = length (takeWhile (\<lambda>x. x \<noteq> CHR ''/'' \<and> x \<noteq> CHR ''?'' \<and> x \<noteq> CHR ''#'') ?ys)"
    by (simp add: length_takeWhile_three nat_add_distrib)
  then show ?thesis
    unfolding splitnetloc_def step_def [symmetric]
    by (simp add: Let_def takeWhile_eq_take [symmetric])
qed

text \<open>A valid scheme survives the stripping and is then cut off at its colon.\<close>

lemma scheme_char_kept:
  "c \<in> set scheme_chars \<Longrightarrow> c \<noteq> CHR '':'' \<and> c \<notin> set UNSAFE_URL_BYTES_TO_REMOVE"
  by (auto simp: scheme_chars_def UNSAFE_URL_BYTES_TO_REMOVE_def)

lemma fold_str_remove:
  "fold str_remove UNSAFE_URL_BYTES_TO_REMOVE url =
     filter (\<lambda>c. c \<notin> set UNSAFE_URL_BYTES_TO_REMOVE) url"
  by (induction url) (auto simp: UNSAFE_URL_BYTES_TO_REMOVE_def str_remove_def)

lemma filter_kept: "list_all (\<lambda>c. c \<notin> set cs) xs \<Longrightarrow> filter (\<lambda>c. c \<notin> set cs) xs = xs"
  by (induction xs) auto

lemma valid_scheme_lstrip:
  assumes "valid_scheme scheme"
  shows "dropWhile WHATWG_C0_CONTROL_OR_SPACE (scheme @ r) = scheme @ r"
proof -
  from assms obtain c cs where "scheme = c # cs" and "isascii_isalpha c"
    by (cases scheme) (auto simp: valid_scheme_def)
  then show ?thesis
    by (auto simp: WHATWG_C0_CONTROL_OR_SPACE_def isascii_isalpha_def Let_def)
qed

lemma valid_scheme_strip:
  assumes "valid_scheme scheme"
  shows "strip_scheme (scheme @ CHR '':'' # r) = r"
proof -
  have no_colon: "CHR '':'' \<notin> set scheme"
    using assms scheme_char_kept by (auto simp: valid_scheme_def list_all_iff)
  then have tw: "takeWhile (\<lambda>x. x \<noteq> CHR '':'') (scheme @ CHR '':'' # r) = scheme"
    by (induction scheme) auto
  have find: "str_find (scheme @ CHR '':'' # r) CHR '':'' 0 = int (length scheme)"
    by (simp add: str_find_def tw del: takeWhile_append)
  have "scheme \<noteq> []" using assms by (simp add: valid_scheme_def)
  then have hd: "hd (scheme @ CHR '':'' # r) = hd scheme" by simp
  show ?thesis
    unfolding strip_scheme_def find Let_def hd
    using assms by (simp add: valid_scheme_def)
qed

lemma takeWhile_authority:
  assumes "list_all (\<lambda>c. c \<notin> set ''/?#[]'' \<and> c \<notin> set UNSAFE_URL_BYTES_TO_REMOVE) authority"
      and "rest = [] \<or> hd rest \<in> set ''/?#''"
  shows "takeWhile (\<lambda>x. x \<noteq> CHR ''/'' \<and> x \<noteq> CHR ''?'' \<and> x \<noteq> CHR ''#'') (authority @ rest) = authority"
proof -
  have "takeWhile (\<lambda>x. x \<noteq> CHR ''/'' \<and> x \<noteq> CHR ''?'' \<and> x \<noteq> CHR ''#'') rest = []"
    using assms(2) by (cases rest) auto
  with assms(1) show ?thesis by (induction authority) auto
qed

text \<open>
  In \<open>scheme://authority\<close> followed by nothing or by a path, a query or a fragment, the
  parser's network location is the authority.
\<close>

lemma urlsplit_netloc_authority:
  assumes scheme: "valid_scheme scheme"
      and authority: "plain_authority authority"
      and rest: "rest = [] \<or> hd rest \<in> set ''/?#''"
  shows "urlsplit_netloc lib (scheme @ ''://'' @ authority @ rest) = Inr authority"
proof -
  define keep where "keep = (\<lambda>c. c \<notin> set UNSAFE_URL_BYTES_TO_REMOVE)"
  define rest' where "rest' = filter keep rest"
  have auth: "list_all (\<lambda>c. c \<notin> set ''/?#[]'' \<and> c \<notin> set UNSAFE_URL_BYTES_TO_REMOVE) authority"
    and ascii: "isascii authority"
    using authority by (simp_all add: plain_authority_def)
  have rest': "rest' = [] \<or> hd rest' \<in> set ''/?#''"
    using rest by (cases rest) (auto simp: rest'_def keep_def UNSAFE_URL_BYTES_TO_REMOVE_def)
  have "filter keep scheme = scheme"
    unfolding keep_def using scheme scheme_char_kept
    by (intro filter_kept) (auto simp: valid_scheme_def list_all_iff)
  moreover have "filter keep authority = authority"
    unfolding keep_def using auth by (intro filter_kept) (auto simp: list_all_iff)
  moreover have "keep CHR '':''" "keep CHR ''/''"
    by (simp_all add: keep_def UNSAFE_URL_BYTES_TO_REMOVE_def)
  ultimately have url2:
    "fold str_remove UNSAFE_URL_BYTES_TO_REMOVE
       (dropWhile WHATWG_C0_CONTROL_OR_SPACE (scheme @ ''://'' @ authority @ rest))
     = scheme @ CHR '':'' # ''//'' @ authority @ rest'"
    by (simp add: valid_scheme_lstrip [OF scheme] fold_str_remove keep_def [symmetric] rest'_def)
  have url: "strip_scheme (scheme @ CHR '':'' # ''//'' @ authority @ rest') = ''//'' @ authority @ rest'"
    by (rule valid_scheme_strip [OF scheme])
  have netloc: "fst (splitnetloc (''//'' @ authority @ rest') 2) = authority"
    using takeWhile_authority [OF auth rest'] by (simp add: splitnetloc_fst)
  have no_bracket: "CHR ''['' \<notin> set authority" "CHR '']'' \<notin> set authority"
    using auth by (auto simp: list_all_iff)
  have "checknetloc lib authority = Inr ()"
    using ascii by (simp add: checknetloc_def)
  then show ?thesis
    unfolding urlsplit_netloc_def Let_def url2 url netloc
    using no_bracket by simp
qed

section \<open>Facts about printing\<close>

lemma unencodable_Strict: "unencodable h s \<Longrightarrow> unencodable Strict s"
  by (induction h s rule: unencodable.induct) auto

lemma str_encodable: "\<not> holds_surrogate v \<Longrightarrow> \<not> str_unencodable h v"
  by (cases v) (auto simp: holds_surrogate_def dest: unencodable_Strict)

lemma print_event: "print h (Printed_event event) out = (None, out @ [Printed_event event])"
  by (simp add: print_def)

lemma print_dict: "print h (Printed_create (VDict props)) out = (None, out @ [Printed_create (VDict props)])"
  by (simp add: print_def)

lemma print_error: "print h line out = (Some e, out') \<Longrightarrow> e = UnicodeEncodeError"
  by (auto simp: print_def split: if_splits)

lemma print_out:
  "print h line out = (fst (print h line []), out @ snd (print h line []))"
  by (simp add: print_def)


section \<open>Facts about the handlers\<close>

text \<open>What the dispatcher does on each recognised request type.\<close>

lemma on_event_Create:
  "map_of event ''RequestType'' = Some (VStr ''Create'') \<Longrightarrow>
   on_event lib event context out = on_create lib event (out @ [Printed_event event])"
  by (simp add: on_event_def print_event dict_getitem_def)

lemma on_event_Update:
  "map_of event ''RequestType'' = Some (VStr ''Update'') \<Longrightarrow>
   on_event lib event context out =
     on_update (stdout_errors lib) event (out @ [Printed_event event])"
  by (simp add: on_event_def print_event dict_getitem_def)

lemma on_event_Delete:
  "map_of event ''RequestType'' = Some (VStr ''Delete'') \<Longrightarrow>
   on_event lib event context out =
     on_delete (stdout_errors lib) event (out @ [Printed_event event])"
  by (simp add: on_event_def print_event dict_getitem_def)

lemma on_create_Url_str:
  "map_of event ''ResourceProperties'' = Some (VDict props) \<Longrightarrow>
   map_of props ''Url'' = Some (VStr url) \<Longrightarrow>
   fst (on_create lib event out) =
     (case urlsplit_netloc lib url of
        Inl e \<Rightarrow> Inl e
      | Inr netloc \<Rightarrow> Inr (VDict [(''Data'', VDict [(''HostName'', VStr netloc)])]))"
  by (simp add: on_create_def print_dict dict_getitem_def split: sum.splits)

text \<open>
  A handler's outcome does not depend on what was printed before it ran, and it only
  appends to standard output.
\<close>

lemma on_create_out:
  "on_create lib event out = (fst (on_create lib event []), out @ snd (on_create lib event []))"
  by (simp add: on_create_def print_def split: sum.splits)

lemma on_update_out:
  "on_update h event out = (fst (on_update h event []), out @ snd (on_update h event []))"
  by (simp add: on_update_def print_def split: sum.splits)

lemma on_delete_out:
  "on_delete h event out = (fst (on_delete h event []), out @ snd (on_delete h event []))"
  by (simp add: on_delete_def print_def split: sum.splits)

text \<open>No handler raises the exception of the dispatcher.\<close>

lemma on_create_error:
  "fst (on_create lib event out) \<noteq> Inl (Exception_Invalid_request_type v)"
  by (auto simp: on_create_def print_def dict_getitem_def
      split: sum.splits option.splits if_splits dest: urlparse_netloc_error
      elim: getitem.elims)

lemma on_update_error:
  "fst (on_update h event out) \<noteq> Inl (Exception_Invalid_request_type v)"
  by (auto simp: on_update_def print_def dict_getitem_def split: option.splits if_splits)

lemma on_delete_error:
  "fst (on_delete h event out) \<noteq> Inl (Exception_Invalid_request_type v)"
  by (auto simp: on_delete_def print_def dict_getitem_def split: option.splits if_splits)

section \<open>The create handler and the host name\<close>

text \<open>
  C1, as the code has it. For every Create event whose \<open>ResourceProperties\<close> hold a
  string \<open>Url\<close>, the outcome of \<open>on_event\<close> is decided by the parser of the
  interpreter (CPython 3.11.4 or later, with either validation of brackets): where
  \<^verbatim>\<open>urlparse\<close> accepts the string, the result is \<open>{Data: {HostName: netloc}}\<close> with
  \<open>netloc\<close> the network location the parser found; where the parser raises,
  \<open>on_event\<close> raises the same exception and returns no result. For a URL
  \<open>scheme://authority\<close> followed by nothing or by a path, a query or a fragment,
  whose scheme is a letter followed by letters, digits, \<open>+\<close>, \<open>-\<close> and \<open>.\<close> and whose
  authority is ASCII text without \<open>/\<close>, \<open>?\<close>, \<open>#\<close>, brackets, tab, carriage return and
  line feed, the host name is the authority: the host, with the port and the user
  information where the URL has them.
\<close>

theorem on_event_create_hostname:
  assumes "map_of event ''RequestType'' = Some (VStr ''Create'')"
      and "map_of event ''ResourceProperties'' = Some (VDict props)"
      and "map_of props ''Url'' = Some (VStr url)"
  shows "fst (on_event lib event context out) =
           (case urlsplit_netloc lib url of
              Inl e \<Rightarrow> Inl e
            | Inr netloc \<Rightarrow> Inr (VDict [(''Data'', VDict [(''HostName'', VStr netloc)])])) \<and>
         (valid_scheme scheme \<and> plain_authority authority \<and>
          (rest = [] \<or> hd rest \<in> set ''/?#'') \<and>
          url = scheme @ ''://'' @ authority @ rest \<longrightarrow>
          fst (on_event lib event context out) =
            Inr (VDict [(''Data'', VDict [(''HostName'', VStr authority)])]))"
proof (intro conjI impI)
  show parsed: "fst (on_event lib event context out) =
           (case urlsplit_netloc lib url of
              Inl e \<Rightarrow> Inl e
            | Inr netloc \<Rightarrow> Inr (VDict [(''Data'', VDict [(''HostName'', VStr netloc)])]))"
    using assms by (simp add: on_event_Create on_create_Url_str)
  assume shape: "valid_scheme scheme \<and> plain_authority authority \<and>
          (rest = [] \<or> hd rest \<in> set ''/?#'') \<and>
          url = scheme @ ''://'' @ authority @ rest"
  then have "urlsplit_netloc lib url = Inr authority"
    using urlsplit_netloc_authority [of scheme authority rest lib] by blast
  with parsed show "fst (on_event lib event context out) =
            Inr (VDict [(''Data'', VDict [(''HostName'', VStr authority)])])"
    by simp
qed

text \<open>
  The two URLs of the specification, run through the parser:
  \<^verbatim>\<open>https://example.com:8080/path\<close> gives the host name \<^verbatim>\<open>example.com:8080\<close>, and
  \<^verbatim>\<open>http://10.0.0.5/\<close> gives \<^verbatim>\<open>10.0.0.5\<close>. A URL with user information keeps it:
  \<^verbatim>\<open>https://user:pw@example.com:8080/path\<close> gives \<^verbatim>\<open>user:pw@example.com:8080\<close>.
\<close>

theorem on_event_create_hostname_witness:
  "\<forall>lib.
     fst (on_event lib
            [(''RequestType'', VStr ''Create''),
             (''ResourceProperties'', VDict [(''Url'', VStr ''https://example.com:8080/path'')])]
            () []) =
       Inr (VDict [(''Data'', VDict [(''HostName'', VStr ''example.com:8080'')])]) \<and>
     fst (on_event lib
            [(''RequestType'', VStr ''Create''),
             (''ResourceProperties'', VDict [(''Url'', VStr ''http://10.0.0.5/'')])]
            () []) =
       Inr (VDict [(''Data'', VDict [(''HostName'', VStr ''10.0.0.5'')])]) \<and>
     fst (on_event lib
            [(''RequestType'', VStr ''Create''),
             (''ResourceProperties'',
              VDict [(''Url'', VStr ''https://user:pw@example.com:8080/path'')])]
            () []) =
       Inr (VDict [(''Data'', VDict [(''HostName'', VStr ''user:pw@example.com:8080'')])])"
proof (intro allI conjI)
  fix lib :: stdlib
  show "fst (on_event lib
            [(''RequestType'', VStr ''Create''),
             (''ResourceProperties'', VDict [(''Url'', VStr ''https://example.com:8080/path'')])]
            () []) =
       Inr (VDict [(''Data'', VDict [(''HostName'', VStr ''example.com:8080'')])])"
    using on_event_create_hostname
        [of "[(''RequestType'', VStr ''Create''),
              (''ResourceProperties'', VDict [(''Url'', VStr ''https://example.com:8080/path'')])]"
            "[(''Url'', VStr ''https://example.com:8080/path'')]"
            "''https://example.com:8080/path''" lib "()" "[]", THEN conjunct1]
    by (simp add: urlsplit_netloc_example_port)
  show "fst (on_event lib
            [(''RequestType'', VStr ''Create''),
             (''ResourceProperties'', VDict [(''Url'', VStr ''http://10.0.0.5/'')])]
            () []) =
       Inr (VDict [(''Data'', VDict [(''HostName'', VStr ''10.0.0.5'')])])"
    using on_event_create_hostname
        [of "[(''RequestType'', VStr ''Create''),
              (''ResourceProperties'', VDict [(''Url'', VStr ''http://10.0.0.5/'')])]"
            "[(''Url'', VStr ''http://10.0.0.5/'')]" "''http://10.0.0.5/''" lib "()" "[]",
         THEN conjunct1]
    by (simp add: urlsplit_netloc_example_ip)
  have scheme: "valid_scheme ''https''"
    by (simp add: valid_scheme_def isascii_isalpha_def scheme_chars_def)
  have authority: "plain_authority ''user:pw@example.com:8080''"
    by (simp add: plain_authority_def isascii_def UNSAFE_URL_BYTES_TO_REMOVE_def)
  show "fst (on_event lib
            [(''RequestType'', VStr ''Create''),
             (''ResourceProperties'',
              VDict [(''Url'', VStr ''https://user:pw@example.com:8080/path'')])]
            () []) =
       Inr (VDict [(''Data'', VDict [(''HostName'', VStr ''user:pw@example.com:8080'')])])"
    using on_event_create_hostname
        [of "[(''RequestType'', VStr ''Create''),
              (''ResourceProperties'',
               VDict [(''Url'', VStr ''https://user:pw@example.com:8080/path'')])]"
            "[(''Url'', VStr ''https://user:pw@example.com:8080/path'')]"
            "''https://user:pw@example.com:8080/path''" lib "()" "[]"
            "''https''" "''user:pw@example.com:8080''" "''/path''", THEN conjunct2]
          scheme authority
    by simp
qed

text \<open>
  Not every string is accepted: on the Create event with \<open>Url\<close> \<^verbatim>\<open>http://[\<close> the parser
  raises \<^verbatim>\<open>ValueError("Invalid IPv6 URL")\<close>, and so does \<open>on_event\<close>.
\<close>

theorem on_event_create_malformed_url:
  "\<forall>lib.
     fst (on_event lib
            [(''RequestType'', VStr ''Create''),
             (''ResourceProperties'', VDict [(''Url'', VStr ''http://['')])]
            () []) = Inl ValueError"
  by (simp add: on_event_Create on_create_Url_str urlsplit_netloc_open_bracket)

section \<open>Update and delete echo the identifier\<close>

text \<open>
  C2, as the code has it. For every Delete event, and for every Update event that
  carries \<open>ResourceProperties\<close>, \<open>on_event\<close> returns \<open>{PhysicalResourceId: id}\<close> with the
  \<open>PhysicalResourceId\<close> it was given, a string or any other value, provided the
  handler's log line can be written: the identifier, and for Update the properties,
  is not a string that holds a surrogate.
\<close>

theorem on_event_update_delete_echo:
  assumes "map_of event ''PhysicalResourceId'' = Some physical_id"
      and "\<not> holds_surrogate physical_id"
      and "map_of event ''RequestType'' = Some (VStr ''Delete'') \<or>
           (map_of event ''RequestType'' = Some (VStr ''Update'') \<and>
            (\<exists>props. map_of event ''ResourceProperties'' = Some props \<and>
                     \<not> holds_surrogate props))"
  shows "fst (on_event lib event context out) =
           Inr (VDict [(''PhysicalResourceId'', physical_id)])"
  using assms
  by (auto simp: on_event_Update on_event_Delete on_update_def on_delete_def dict_getitem_def
        print_def str_encodable)

theorem on_event_update_delete_echo_witness:
  "\<forall>lib.
     fst (on_event lib
            [(''RequestType'', VStr ''Update''), (''PhysicalResourceId'', VStr ''abc-123''),
             (''ResourceProperties'', VDict [])]
            () []) = Inr (VDict [(''PhysicalResourceId'', VStr ''abc-123'')]) \<and>
     fst (on_event lib
            [(''RequestType'', VStr ''Delete''), (''PhysicalResourceId'', VStr ''abc-123'')]
            () []) = Inr (VDict [(''PhysicalResourceId'', VStr ''abc-123'')])"
proof (intro allI)
  fix lib :: stdlib
  have id: "\<not> holds_surrogate (VStr ''abc-123'')"
    by (simp add: holds_surrogate_def)
  have props: "\<not> holds_surrogate (VDict [])"
    by (simp add: holds_surrogate_def)
  show "fst (on_event lib
            [(''RequestType'', VStr ''Update''), (''PhysicalResourceId'', VStr ''abc-123''),
             (''ResourceProperties'', VDict [])]
            () []) = Inr (VDict [(''PhysicalResourceId'', VStr ''abc-123'')]) \<and>
     fst (on_event lib
            [(''RequestType'', VStr ''Delete''), (''PhysicalResourceId'', VStr ''abc-123'')]
            () []) = Inr (VDict [(''PhysicalResourceId'', VStr ''abc-123'')])"
    using on_event_update_delete_echo
            [of "[(''RequestType'', VStr ''Update''), (''PhysicalResourceId'', VStr ''abc-123''),
                  (''ResourceProperties'', VDict [])]" "VStr ''abc-123''" lib "()" "[]"]
          on_event_update_delete_echo
            [of "[(''RequestType'', VStr ''Delete''), (''PhysicalResourceId'', VStr ''abc-123'')]"
                "VStr ''abc-123''" lib "()" "[]"]
          id props
    by simp
qed

text \<open>
  An Update event with a \<open>PhysicalResourceId\<close> and no \<open>ResourceProperties\<close> gets no
  result: \<open>on_update\<close> reads the properties for its log line and raises \<^verbatim>\<open>KeyError\<close>.
  Nor does a Delete event whose identifier is the string \<^verbatim>\<open>"\ud800"\<close>, as JSON can
  carry it: under the strict handler \<^verbatim>\<open>print\<close> raises \<^verbatim>\<open>UnicodeEncodeError\<close> at the
  log line, before the return.
\<close>

theorem on_event_update_without_properties:
  "\<forall>lib.
     fst (on_event lib
            [(''RequestType'', VStr ''Update''), (''PhysicalResourceId'', VStr ''abc-123'')]
            () []) = Inl (KeyError ''ResourceProperties'') \<and>
     fst (on_event (lib\<lparr>stdout_errors := Strict\<rparr>)
            [(''RequestType'', VStr ''Delete''),
             (''PhysicalResourceId'', VStr [CHR 0xED, CHR 0xA0, CHR 0x80])]
            () []) = Inl UnicodeEncodeError"
  by (simp add: on_event_Update on_event_Delete on_update_def on_delete_def dict_getitem_def
        print_def)

section \<open>Unrecognised request types\<close>

text \<open>
  C3. For every event whose \<open>RequestType\<close> is a value other than the strings
  \<open>Create\<close>, \<open>Update\<close> and \<open>Delete\<close>, \<open>on_event\<close> prints the event and raises the
  invalid-request-type exception, which nothing catches; and that exception is raised
  exactly when \<open>RequestType\<close> has such a value.
\<close>

theorem on_event_invalid_request_type:
  "(\<forall>request_type.
      map_of event ''RequestType'' = Some request_type \<and>
      request_type \<notin> {VStr ''Create'', VStr ''Update'', VStr ''Delete''} \<longrightarrow>
      on_event lib event context out =
        (Inl (Exception_Invalid_request_type request_type), out @ [Printed_event event])) \<and>
   ((\<exists>v. fst (on_event lib event context out) = Inl (Exception_Invalid_request_type v)) \<longleftrightarrow>
    (\<exists>request_type.
       map_of event ''RequestType'' = Some request_type \<and>
       request_type \<notin> {VStr ''Create'', VStr ''Update'', VStr ''Delete''}))"
proof (intro conjI allI impI iffI)
  fix request_type
  assume "map_of event ''RequestType'' = Some request_type \<and>
      request_type \<notin> {VStr ''Create'', VStr ''Update'', VStr ''Delete''}"
  then show "on_event lib event context out =
        (Inl (Exception_Invalid_request_type request_type), out @ [Printed_event event])"
    by (simp add: on_event_def print_event dict_getitem_def)
next
  assume "\<exists>request_type.
       map_of event ''RequestType'' = Some request_type \<and>
       request_type \<notin> {VStr ''Create'', VStr ''Update'', VStr ''Delete''}"
  then show "\<exists>v. fst (on_event lib event context out) = Inl (Exception_Invalid_request_type v)"
    by (auto simp: on_event_def print_event dict_getitem_def)
next
  assume "\<exists>v. fst (on_event lib event context out) = Inl (Exception_Invalid_request_type v)"
  then obtain v
    where v: "fst (on_event lib event context out) = Inl (Exception_Invalid_request_type v)"
    by blast
  show "\<exists>request_type.
       map_of event ''RequestType'' = Some request_type \<and>
       request_type \<notin> {VStr ''Create'', VStr ''Update'', VStr ''Delete''}"
  proof (cases "map_of event ''RequestType''")
    case None
    with v show ?thesis by (simp add: on_event_def print_event dict_getitem_def)
  next
    case (Some rt)
    have "rt \<noteq> VStr ''Create''"
    proof
      assume "rt = VStr ''Create''"
      with Some v show False by (simp add: on_event_Create on_create_error)
    qed
    moreover have "rt \<noteq> VStr ''Update''"
    proof
      assume "rt = VStr ''Update''"
      with Some v show False by (simp add: on_event_Update on_update_error)
    qed
    moreover have "rt \<noteq> VStr ''Delete''"
    proof
      assume "rt = VStr ''Delete''"
      with Some v show False by (simp add: on_event_Delete on_delete_error)
    qed
    ultimately show ?thesis using Some by simp
  qed
qed

theorem on_event_invalid_request_type_witness:
  "\<forall>lib.
     on_event lib [(''RequestType'', VStr ''Replace'')] () [] =
       (Inl (Exception_Invalid_request_type (VStr ''Replace'')),
        [Printed_event [(''RequestType'', VStr ''Replace'')]])"
proof
  fix lib :: stdlib
  show "on_event lib [(''RequestType'', VStr ''Replace'')] () [] =
       (Inl (Exception_Invalid_request_type (VStr ''Replace'')),
        [Printed_event [(''RequestType'', VStr ''Replace'')]])"
    using on_event_invalid_request_type
            [of "[(''RequestType'', VStr ''Replace'')]" lib "()" "[]",
             THEN conjunct1, rule_format, of "VStr ''Replace''"]
    by simp
qed

section \<open>The completion checker answers true\<close>

text \<open>
  C4, as the code has it. For every event that has a \<open>PhysicalResourceId\<close> and a
  \<open>RequestType\<close>, whatever the values of these two fields and whatever else the event
  holds, \<open>is_complete\<close> returns \<open>{IsComplete: True}\<close> and prints nothing.
\<close>

theorem is_complete_any_values:
  assumes "map_of event ''PhysicalResourceId'' = Some physical_id"
      and "map_of event ''RequestType'' = Some request_type"
  shows "is_complete event context out = (Inr (VDict [(''IsComplete'', VBool True)]), out)"
  using assms by (simp add: is_complete_def dict_getitem_def)

theorem is_complete_any_values_witness:
  "is_complete [(''RequestType'', VStr ''Create''), (''PhysicalResourceId'', VStr ''abc-123'')] () []
     = (Inr (VDict [(''IsComplete'', VBool True)]), []) \<and>
   is_complete [(''PhysicalResourceId'', VNone), (''RequestType'', VInt 7),
                (''ResourceProperties'', VList [])] () []
     = (Inr (VDict [(''IsComplete'', VBool True)]), [])"
  using is_complete_any_values
          [of "[(''RequestType'', VStr ''Create''), (''PhysicalResourceId'', VStr ''abc-123'')]"
              "VStr ''abc-123''" "VStr ''Create''" "()" "[]"]
        is_complete_any_values
          [of "[(''PhysicalResourceId'', VNone), (''RequestType'', VInt 7),
                (''ResourceProperties'', VList [])]" VNone "VInt 7" "()" "[]"]
  by simp

text \<open>
  It does not answer on every event. A Create event as the orchestrator first sends
  it, with properties and without a \<open>PhysicalResourceId\<close>, makes \<open>is_complete\<close> raise
  \<^verbatim>\<open>KeyError('PhysicalResourceId')\<close>.
\<close>

theorem is_complete_create_event_without_id:
  "is_complete [(''RequestType'', VStr ''Create''),
                (''ResourceProperties'', VDict [(''Url'', VStr ''http://10.0.0.5/'')])] () []
     = (Inl (KeyError ''PhysicalResourceId''), [])"
  by (simp add: is_complete_def dict_getitem_def)

section \<open>Dispatch\<close>

text \<open>
  C5. For every event whose \<open>RequestType\<close> is \<open>Create\<close>, \<open>Update\<close> or \<open>Delete\<close>,
  \<open>on_event\<close> is the matching handler run on that event after the event was printed:
  the handler's outcome, a result or an exception, is passed through as it is, and it
  is the outcome the handler has on this event whatever was printed before.
\<close>

theorem on_event_dispatch:
  "(map_of event ''RequestType'' = Some (VStr ''Create'') \<longrightarrow>
      on_event lib event context out = on_create lib event (out @ [Printed_event event]) \<and>
      fst (on_event lib event context out) = fst (on_create lib event out')) \<and>
   (map_of event ''RequestType'' = Some (VStr ''Update'') \<longrightarrow>
      on_event lib event context out =
        on_update (stdout_errors lib) event (out @ [Printed_event event]) \<and>
      fst (on_event lib event context out) = fst (on_update (stdout_errors lib) event out')) \<and>
   (map_of event ''RequestType'' = Some (VStr ''Delete'') \<longrightarrow>
      on_event lib event context out =
        on_delete (stdout_errors lib) event (out @ [Printed_event event]) \<and>
      fst (on_event lib event context out) = fst (on_delete (stdout_errors lib) event out'))"
proof (intro conjI impI)
  assume "map_of event ''RequestType'' = Some (VStr ''Create'')"
  then show "on_event lib event context out = on_create lib event (out @ [Printed_event event])"
    by (rule on_event_Create)
  then show "fst (on_event lib event context out) = fst (on_create lib event out')"
    using on_create_out [of lib event "out @ [Printed_event event]"]
          on_create_out [of lib event out']
    by simp
next
  assume "map_of event ''RequestType'' = Some (VStr ''Update'')"
  then show "on_event lib event context out =
      on_update (stdout_errors lib) event (out @ [Printed_event event])"
    by (rule on_event_Update)
  then show "fst (on_event lib event context out) = fst (on_update (stdout_errors lib) event out')"
    using on_update_out [of "stdout_errors lib" event "out @ [Printed_event event]"]
          on_update_out [of "stdout_errors lib" event out']
    by simp
next
  assume "map_of event ''RequestType'' = Some (VStr ''Delete'')"
  then show "on_event lib event context out =
      on_delete (stdout_errors lib) event (out @ [Printed_event event])"
    by (rule on_event_Delete)
  then show "fst (on_event lib event context out) = fst (on_delete (stdout_errors lib) event out')"
    using on_delete_out [of "stdout_errors lib" event "out @ [Printed_event event]"]
          on_delete_out [of "stdout_errors lib" event out']
    by simp
qed

text \<open>
  A Delete event goes to \<open>on_delete\<close> and gets its result; a Create event without
  properties goes to \<open>on_create\<close> and gets its \<^verbatim>\<open>KeyError\<close>; an Update event goes to
  \<open>on_update\<close>.
\<close>

theorem on_event_dispatch_witness:
  "\<forall>lib.
     on_event lib [(''RequestType'', VStr ''Delete''), (''PhysicalResourceId'', VStr ''abc-123'')] () []
       = on_delete (stdout_errors lib)
           [(''RequestType'', VStr ''Delete''), (''PhysicalResourceId'', VStr ''abc-123'')]
           [Printed_event [(''RequestType'', VStr ''Delete''), (''PhysicalResourceId'', VStr ''abc-123'')]] \<and>
     fst (on_event lib [(''RequestType'', VStr ''Delete''), (''PhysicalResourceId'', VStr ''abc-123'')] () [])
       = Inr (VDict [(''PhysicalResourceId'', VStr ''abc-123'')]) \<and>
     on_event lib [(''RequestType'', VStr ''Create'')] () []
       = on_create lib [(''RequestType'', VStr ''Create'')]
           [Printed_event [(''RequestType'', VStr ''Create'')]] \<and>
     fst (on_event lib [(''RequestType'', VStr ''Create'')] () [])
       = Inl (KeyError ''ResourceProperties'') \<and>
     on_event lib [(''RequestType'', VStr ''Update''), (''PhysicalResourceId'', VInt 5),
                   (''ResourceProperties'', VNone)] () []
       = on_update (stdout_errors lib)
           [(''RequestType'', VStr ''Update''), (''PhysicalResourceId'', VInt 5),
            (''ResourceProperties'', VNone)]
           [Printed_event [(''RequestType'', VStr ''Update''), (''PhysicalResourceId'', VInt 5),
                           (''ResourceProperties'', VNone)]] \<and>
     fst (on_event lib [(''RequestType'', VStr ''Update''), (''PhysicalResourceId'', VInt 5),
                        (''ResourceProperties'', VNone)] () [])
       = Inr (VDict [(''PhysicalResourceId'', VInt 5)])"
proof (intro allI)
  fix lib :: stdlib
  let ?h = "stdout_errors lib"
  let ?delete = "[(''RequestType'', VStr ''Delete''), (''PhysicalResourceId'', VStr ''abc-123'')]"
  let ?create = "[(''RequestType'', VStr ''Create'')]"
  let ?update = "[(''RequestType'', VStr ''Update''), (''PhysicalResourceId'', VInt 5),
                  (''ResourceProperties'', VNone)]"
  have d: "on_event lib ?delete () [] = on_delete ?h ?delete [Printed_event ?delete]"
    using on_event_dispatch [of ?delete lib "()" "[]" "[]"] by simp
  have c: "on_event lib ?create () [] = on_create lib ?create [Printed_event ?create]"
    using on_event_dispatch [of ?create lib "()" "[]" "[]"] by simp
  have u: "on_event lib ?update () [] = on_update ?h ?update [Printed_event ?update]"
    using on_event_dispatch [of ?update lib "()" "[]" "[]"] by simp
  have "\<not> unencodable ?h ''abc-123''"
    using unencodable_Strict [of ?h "''abc-123''"] by auto
  then have "fst (on_delete ?h ?delete [Printed_event ?delete]) = Inr (VDict [(''PhysicalResourceId'', VStr ''abc-123'')])"
    by (simp add: on_delete_def dict_getitem_def print_def)
  moreover have "fst (on_create lib ?create [Printed_event ?create]) = Inl (KeyError ''ResourceProperties'')"
    by (simp add: on_create_def dict_getitem_def)
  moreover have "fst (on_update ?h ?update [Printed_event ?update]) = Inr (VDict [(''PhysicalResourceId'', VInt 5)])"
    by (simp add: on_update_def dict_getitem_def print_def)
  ultimately show "on_event lib ?delete () [] = on_delete ?h ?delete [Printed_event ?delete] \<and>
     fst (on_event lib ?delete () []) = Inr (VDict [(''PhysicalResourceId'', VStr ''abc-123'')]) \<and>
     on_event lib ?create () [] = on_create lib ?create [Printed_event ?create] \<and>
     fst (on_event lib ?create () []) = Inl (KeyError ''ResourceProperties'') \<and>
     on_event lib ?update () [] = on_update ?h ?update [Printed_event ?update] \<and>
     fst (on_event lib ?update () []) = Inr (VDict [(''PhysicalResourceId'', VInt 5)])"
    using d c u by simp
qed

section \<open>The result of a create\<close>

lemma on_create_result_shape:
  "fst (on_create lib event out) = Inr result \<Longrightarrow>
   \<exists>hostname. result = VDict [(''Data'', VDict [(''HostName'', hostname)])]"
  by (auto simp: on_create_def print_def split: sum.splits if_splits)

text \<open>
  C6. For every Create event, a result that \<open>on_event\<close> returns is a dictionary with
  the single field \<open>Data\<close>, itself \<open>{HostName: ...}\<close>; it has no \<open>PhysicalResourceId\<close>
  field, so looking that key up in it fails.
\<close>

theorem on_event_create_result_fields:
  assumes "map_of event ''RequestType'' = Some (VStr ''Create'')"
      and "fst (on_event lib event context out) = Inr result"
  shows "(\<exists>hostname. result = VDict [(''Data'', VDict [(''HostName'', hostname)])]) \<and>
         (\<exists>fields. result = VDict fields \<and> map fst fields = [''Data'']) \<and>
         getitem result ''PhysicalResourceId'' = Inl (KeyError ''PhysicalResourceId'')"
proof -
  from assms have "fst (on_create lib event (out @ [Printed_event event])) = Inr result"
    by (simp add: on_event_Create)
  then obtain hostname where "result = VDict [(''Data'', VDict [(''HostName'', hostname)])]"
    using on_create_result_shape by blast
  then show ?thesis by (simp add: dict_getitem_def)
qed

theorem on_event_create_result_fields_witness:
  "\<forall>lib.
     fst (on_event lib
            [(''RequestType'', VStr ''Create''),
             (''ResourceProperties'', VDict [(''Url'', VStr ''http://10.0.0.5/'')])] () []) =
       Inr (VDict [(''Data'', VDict [(''HostName'', VStr ''10.0.0.5'')])]) \<and>
     getitem (VDict [(''Data'', VDict [(''HostName'', VStr ''10.0.0.5'')])]) ''PhysicalResourceId'' =
       Inl (KeyError ''PhysicalResourceId'')"
proof (intro allI)
  fix lib :: stdlib
  let ?event = "[(''RequestType'', VStr ''Create''),
             (''ResourceProperties'', VDict [(''Url'', VStr ''http://10.0.0.5/'')])]"
  let ?result = "VDict [(''Data'', VDict [(''HostName'', VStr ''10.0.0.5'')])]"
  have returned: "fst (on_event lib ?event () []) = Inr ?result"
    by (simp add: on_event_Create on_create_Url_str urlsplit_netloc_example_ip)
  have "map_of ?event ''RequestType'' = Some (VStr ''Create'')"
    by simp
  from on_event_create_result_fields [OF this returned] returned
  show "fst (on_event lib ?event () []) = Inr ?result \<and>
     getitem ?result ''PhysicalResourceId'' = Inl (KeyError ''PhysicalResourceId'')"
    by simp
qed

section \<open>Missing fields\<close>

text \<open>
  C7. A Create event whose \<open>ResourceProperties\<close> dictionary has no \<open>Url\<close> makes
  \<open>on_create\<close> raise \<^verbatim>\<open>KeyError('Url')\<close>; an event without \<open>PhysicalResourceId\<close> makes
  \<open>on_update\<close> and \<open>on_delete\<close> raise \<^verbatim>\<open>KeyError('PhysicalResourceId')\<close>. Through
  \<open>on_event\<close> the same exception comes out: it is the lookup's own error, not the
  invalid-request-type exception, and there is no result.
\<close>

theorem missing_key_raises_KeyError:
  "(map_of event ''ResourceProperties'' = Some (VDict props) \<and> map_of props ''Url'' = None \<longrightarrow>
      fst (on_create lib event out) = Inl (KeyError ''Url'') \<and>
      (map_of event ''RequestType'' = Some (VStr ''Create'') \<longrightarrow>
         fst (on_event lib event context out) = Inl (KeyError ''Url''))) \<and>
   (map_of event ''PhysicalResourceId'' = None \<longrightarrow>
      fst (on_update h event out) = Inl (KeyError ''PhysicalResourceId'') \<and>
      fst (on_delete h event out) = Inl (KeyError ''PhysicalResourceId'') \<and>
      (map_of event ''RequestType'' = Some (VStr ''Update'') \<longrightarrow>
         fst (on_event lib event context out) = Inl (KeyError ''PhysicalResourceId'')) \<and>
      (map_of event ''RequestType'' = Some (VStr ''Delete'') \<longrightarrow>
         fst (on_event lib event context out) = Inl (KeyError ''PhysicalResourceId'')))"
  by (simp add: on_event_Create on_event_Update on_event_Delete
        on_create_def on_update_def on_delete_def dict_getitem_def print_dict)

theorem missing_key_raises_KeyError_witness:
  "\<forall>lib.
     fst (on_event lib
            [(''RequestType'', VStr ''Create''), (''ResourceProperties'', VDict [])] () []) =
       Inl (KeyError ''Url'') \<and>
     fst (on_event lib [(''RequestType'', VStr ''Update''), (''ResourceProperties'', VDict [])] () []) =
       Inl (KeyError ''PhysicalResourceId'') \<and>
     fst (on_event lib [(''RequestType'', VStr ''Delete'')] () []) =
       Inl (KeyError ''PhysicalResourceId'')"
proof (intro allI conjI)
  fix lib :: stdlib
  show "fst (on_event lib
            [(''RequestType'', VStr ''Create''), (''ResourceProperties'', VDict [])] () []) =
       Inl (KeyError ''Url'')"
    using missing_key_raises_KeyError
      [of "[(''RequestType'', VStr ''Create''), (''ResourceProperties'', VDict [])]" "[]"
          lib "[]" "()" Strict]
    by simp
  show "fst (on_event lib [(''RequestType'', VStr ''Update''), (''ResourceProperties'', VDict [])] () []) =
       Inl (KeyError ''PhysicalResourceId'')"
    using missing_key_raises_KeyError
      [of "[(''RequestType'', VStr ''Update''), (''ResourceProperties'', VDict [])]" "[]"
          lib "[]" "()" Strict]
    by simp
  show "fst (on_event lib [(''RequestType'', VStr ''Delete'')] () []) =
       Inl (KeyError ''PhysicalResourceId'')"
    using missing_key_raises_KeyError
      [of "[(''RequestType'', VStr ''Delete'')]" "[]" lib "[]" "()" Strict]
    by simp
qed

section \<open>The completion checker reads both fields\<close>

text \<open>
  C8. \<open>is_complete\<close> looks up \<open>PhysicalResourceId\<close> and then \<open>RequestType\<close> before it
  answers: an event without the first raises \<^verbatim>\<open>KeyError('PhysicalResourceId')\<close>, one
  with the first and without the second raises \<^verbatim>\<open>KeyError('RequestType')\<close>, and
  \<open>{IsComplete: True}\<close> is returned exactly when both are there.
\<close>

theorem is_complete_requires_keys:
  "is_complete event context out =
     (if map_of event ''PhysicalResourceId'' = None then Inl (KeyError ''PhysicalResourceId'')
      else if map_of event ''RequestType'' = None then Inl (KeyError ''RequestType'')
      else Inr (VDict [(''IsComplete'', VBool True)]),
      out) \<and>
   ((\<exists>result. fst (is_complete event context out) = Inr result) \<longleftrightarrow>
      map_of event ''PhysicalResourceId'' \<noteq> None \<and> map_of event ''RequestType'' \<noteq> None)"
  by (auto simp: is_complete_def dict_getitem_def split: option.splits)

theorem is_complete_requires_keys_witness:
  "is_complete [] () [] = (Inl (KeyError ''PhysicalResourceId''), []) \<and>
   is_complete [(''PhysicalResourceId'', VStr ''abc-123'')] () [] = (Inl (KeyError ''RequestType''), []) \<and>
   is_complete [(''RequestType'', VStr ''Create'')] () [] = (Inl (KeyError ''PhysicalResourceId''), []) \<and>
   is_complete [(''PhysicalResourceId'', VStr ''abc-123''), (''RequestType'', VStr ''Create'')] () [] =
     (Inr (VDict [(''IsComplete'', VBool True)]), [])"
  using is_complete_requires_keys [of "[]" "()" "[]"]
        is_complete_requires_keys [of "[(''PhysicalResourceId'', VStr ''abc-123'')]" "()" "[]"]
        is_complete_requires_keys [of "[(''RequestType'', VStr ''Create'')]" "()" "[]"]
        is_complete_requires_keys
          [of "[(''PhysicalResourceId'', VStr ''abc-123''), (''RequestType'', VStr ''Create'')]" "()" "[]"]
  by simp

section \<open>The update handler and the properties\<close>




section \<open>No state between invocations\<close>

text \<open>
  Standard output is the only state the program touches, and it is only written:
  the outcome of \<open>on_event\<close> is its outcome on an empty output, and what it prints is
  appended to what was there.
\<close>

lemma on_event_out:
  "on_event lib event context out =
     (fst (on_event lib event context' []), out @ snd (on_event lib event context' []))"
proof -
  have "on_create lib event (out @ [Printed_event event]) =
      (fst (on_create lib event [Printed_event event]),
       out @ snd (on_create lib event [Printed_event event]))"
    using on_create_out [of lib event "out @ [Printed_event event]"]
          on_create_out [of lib event "[Printed_event event]"]
    by simp
  moreover have "on_update h event (out @ [Printed_event event]) =
      (fst (on_update h event [Printed_event event]),
       out @ snd (on_update h event [Printed_event event]))" for h
    using on_update_out [of h event "out @ [Printed_event event]"]
          on_update_out [of h event "[Printed_event event]"]
    by simp
  moreover have "on_delete h event (out @ [Printed_event event]) =
      (fst (on_delete h event [Printed_event event]),
       out @ snd (on_delete h event [Printed_event event]))" for h
    using on_delete_out [of h event "out @ [Printed_event event]"]
          on_delete_out [of h event "[Printed_event event]"]
    by simp
  ultimately show ?thesis
    by (simp add: on_event_def print_event split: sum.splits)
qed

text \<open>
  C10. The outcome of \<open>on_event\<close> and of \<open>is_complete\<close> on an event is the same in
  every invocation: it depends neither on the context object nor on what earlier
  invocations left on standard output, so a second invocation right after the first
  has the same outcome. \<open>on_event\<close> appends its lines to the output and
  \<open>is_complete\<close> leaves it as it was.
\<close>

theorem entry_points_stateless:
  "fst (on_event lib event context1 out1) = fst (on_event lib event context2 out2) \<and>
   fst (on_event lib event context2 (snd (on_event lib event context1 out1))) =
     fst (on_event lib event context1 out1) \<and>
   snd (on_event lib event context1 out1) = out1 @ snd (on_event lib event context2 []) \<and>
   is_complete event context1 out1 = (fst (is_complete event context2 out2), out1)"
proof (intro conjI)
  show "fst (on_event lib event context1 out1) = fst (on_event lib event context2 out2)"
    using on_event_out [of lib event context1 out1 context2]
          on_event_out [of lib event context2 out2 context2]
    by simp
  show "fst (on_event lib event context2 (snd (on_event lib event context1 out1))) =
     fst (on_event lib event context1 out1)"
    using on_event_out [of lib event context1 out1 context2]
          on_event_out [of lib event context2 "snd (on_event lib event context1 out1)" context2]
    by simp
  show "snd (on_event lib event context1 out1) = out1 @ snd (on_event lib event context2 [])"
    using on_event_out [of lib event context1 out1 context2] by simp
  show "is_complete event context1 out1 = (fst (is_complete event context2 out2), out1)"
    by (simp add: is_complete_def split: sum.splits)
qed

text \<open>
  Two invocations on one Delete event, the second on the output of the first and
  with another context: the same result twice, and two pairs of lines printed.
\<close>

theorem entry_points_stateless_witness:
  "\<forall>lib.
     fst (on_event lib [(''RequestType'', VStr ''Delete''), (''PhysicalResourceId'', VStr ''abc-123'')]
            True
            (snd (on_event lib
                    [(''RequestType'', VStr ''Delete''), (''PhysicalResourceId'', VStr ''abc-123'')]
                    () []))) =
     fst (on_event lib [(''RequestType'', VStr ''Delete''), (''PhysicalResourceId'', VStr ''abc-123'')]
            () []) \<and>
     fst (on_event lib [(''RequestType'', VStr ''Delete''), (''PhysicalResourceId'', VStr ''abc-123'')]
            () []) = Inr (VDict [(''PhysicalResourceId'', VStr ''abc-123'')]) \<and>
     length (snd (on_event lib
                    [(''RequestType'', VStr ''Delete''), (''PhysicalResourceId'', VStr ''abc-123'')]
                    True
                    (snd (on_event lib
                           [(''RequestType'', VStr ''Delete''), (''PhysicalResourceId'', VStr ''abc-123'')]
                           () [])))) = 4"
proof (intro allI)
  fix lib :: stdlib
  let ?event = "[(''RequestType'', VStr ''Delete''), (''PhysicalResourceId'', VStr ''abc-123'')]"
  have enc: "\<not> unencodable (stdout_errors lib) ''abc-123''"
    using unencodable_Strict [of "stdout_errors lib" "''abc-123''"] by auto
  have once: "on_event lib ?event () [] =
      (Inr (VDict [(''PhysicalResourceId'', VStr ''abc-123'')]),
       [Printed_event ?event, Printed_delete (VStr ''abc-123'')])"
    using enc by (simp add: on_event_Delete on_delete_def dict_getitem_def print_def)
  have twice: "snd (on_event lib ?event True (snd (on_event lib ?event () []))) =
      [Printed_event ?event, Printed_delete (VStr ''abc-123''),
       Printed_event ?event, Printed_delete (VStr ''abc-123'')]"
    using enc by (simp add: on_event_Delete on_delete_def dict_getitem_def print_def)
  have "fst (on_event lib ?event True (snd (on_event lib ?event () []))) =
      fst (on_event lib ?event () [])"
    by (rule entry_points_stateless [of lib ?event "()" "[]" True "[]", THEN conjunct2, THEN conjunct1])
  then show "fst (on_event lib ?event True (snd (on_event lib ?event () []))) =
        fst (on_event lib ?event () []) \<and>
      fst (on_event lib ?event () []) = Inr (VDict [(''PhysicalResourceId'', VStr ''abc-123'')]) \<and>
      length (snd (on_event lib ?event True (snd (on_event lib ?event () [])))) = 4"
    using once twice by simp
qed

end
